theory Spec2Isabelle
  imports Complex_Main
begin

section \<open>Paginator\<close>

text \<open>
  The showcase page computes, on every render,
  \<^verbatim>\<open>const totalPages = Math.ceil(filteredItems.length / itemsPerPage);\<close>
  \<^verbatim>\<open>const paginatedItems = filteredItems.slice((currentPage - 1) * itemsPerPage, currentPage * itemsPerPage);\<close>
  where \<open>itemsPerPage\<close> is the constant state \<open>useState(24)\<close> (it has no setter).
  The quotient is the exact rational for the array lengths and page sizes a browser can hold
  (both below \<open>2^32\<close>); a page size of \<open>0\<close> (where JavaScript yields \<open>NaN\<close> or
  \<open>Infinity\<close>) is outside the model.
\<close>

definition itemsPerPage :: nat where
  "itemsPerPage = 24"

definition totalPages :: "'a list \<Rightarrow> nat \<Rightarrow> int" where
  "totalPages filteredItems pageSize =
     \<lceil>(of_nat (length filteredItems) :: rat) / of_nat pageSize\<rceil>"

text \<open>\<open>Array.prototype.slice(start, end)\<close> with \<open>start\<close>, \<open>end\<close> integers: negative
  indices count from the end, both are clamped into \<open>[0, length]\<close>.\<close>

definition slice :: "'a list \<Rightarrow> int \<Rightarrow> int \<Rightarrow> 'a list" where
  "slice xs start end' =
     (let n = int (length xs);
          k = (if start < 0 then max (n + start) 0 else min start n);
          e = (if end' < 0 then max (n + end') 0 else min end' n)
      in take (nat (e - k)) (drop (nat k) xs))"

definition paginatedItems :: "'a list \<Rightarrow> int \<Rightarrow> nat \<Rightarrow> 'a list" where
  "paginatedItems filteredItems currentPage pageSize =
     slice filteredItems ((currentPage - 1) * int pageSize) (currentPage * int pageSize)"

section \<open>Catalog data model\<close>

text \<open>
  The \<open>StoreItem\<close> interface of the showcase page. The TypeScript interface declares every
  field but \<open>technical\<close> as present; the page nevertheless guards its reads of \<open>author\<close>,
  \<open>author.username\<close>, \<open>tags\<close>, each tag entry, \<open>tags_id\<close> and \<open>tags_id.name\<close>
  (\<open>item.author?.username\<close>, \<open>tag?.tags_id?.name\<close>, ...), because the snapshot is untyped JSON.
  Those fields are therefore optional here: \<open>None\<close> is JavaScript's \<open>undefined\<close>/\<open>null\<close>.
  For \<open>tags\<close>, \<open>None\<close> also stands for a value that is not an array
  (\<open>item.tags && Array.isArray(item.tags)\<close> is false for both).
  Fields whose source names clash with Isabelle names carry a suffix:
  \<open>id_s\<close>, \<open>name_s\<close>, \<open>type_s\<close>, \<open>private_s\<close> (item) and \<open>name_t\<close>, \<open>id_t\<close> (tag).
\<close>

datatype item_type = FLOW | COMPONENT

record Author =
  username :: "string option"
  full_name :: "string option"

record Stats =
  downloads :: int
  likes :: int

record Dates =
  created :: string
  updated :: string

record TagsId =
  name_t :: "string option"
  id_t :: "string option"

record Tag =
  tags_id :: "TagsId option"

record Technical =
  last_tested_version :: "string option"
  private_s :: "bool option"

record StoreItem =
  id_s :: string
  name_s :: string
  description :: string
  type_s :: item_type
  author :: "Author option"
  stats :: Stats
  dates :: Dates
  tags :: "Tag option list option"
  technical :: "Technical option"

record Summary =
  total_items :: int
  total_flows :: int
  total_components :: int

record StoreData =
  flows :: "StoreItem list"
  components :: "StoreItem list"
  summary :: Summary

text \<open>User-visible notifications: \<open>setSuccessData({title})\<close> and \<open>setErrorData({title, list})\<close>
  of the alert store, in the order they are raised.\<close>

datatype alert = SuccessData string | ErrorData string "string list"

text \<open>
  The state of the \<open>ShowcasePage\<close> component that the modelled operations read or write:
  its \<open>useState\<close> cells, the cached result of the \<open>["favorites", "item-ids"]\<close> query
  (\<open>favoriteItemIds\<close>, \<open>[]\<close> until it has loaded) with its stale flag
  (\<open>favoritesInvalidated\<close>), the folder store's \<open>myCollectionId\<close>, and the alerts
  raised so far.
\<close>

record ShowcaseState =
  storeData :: "StoreData option"
  searchTerm :: string
  sortBy :: string
  activeTab :: string
  selectedTags :: "string list"
  authorFilter :: string
  showPrivateOnly :: bool
  currentPage :: int
  grabbingItems :: "string set"
  typeFilter :: string
  showFavoritesOnly :: bool
  favoriteItemIds :: "string list"
  favoritesInvalidated :: bool
  myCollectionId :: "string option"
  alerts :: "alert list"

section \<open>Platform functions\<close>

text \<open>
  Three built-ins of the JavaScript runtime are parameters of the model:
  \<^item> \<open>toLowerCase\<close>: \<open>String.prototype.toLowerCase\<close>;
  \<^item> \<open>getTime\<close>: \<open>new Date(s).getTime()\<close>, for date strings that parse (an unparseable
    date gives \<open>NaN\<close>, which is outside the model);
  \<^item> \<open>localeKey\<close>: the collation key of a string in the runtime's locale, so that
    \<open>a.localeCompare(b)\<close> is negative, zero or positive as \<open>localeKey a\<close> is less than,
    equal to or greater than \<open>localeKey b\<close>.
\<close>

record 'k builtins =
  toLowerCase :: "string \<Rightarrow> string"
  getTime :: "string \<Rightarrow> int"
  localeKey :: "string \<Rightarrow> 'k"

text \<open>\<open>String.prototype.includes\<close>: \<open>t\<close> occurs in \<open>s\<close> at some index \<open>0 \<le> i \<le> length s\<close>.\<close>

definition includes_str :: "string \<Rightarrow> string \<Rightarrow> bool" where
  "includes_str s t = list_ex (\<lambda>i. take (length t) (drop i s) = t) [0..<Suc (length s)]"

text \<open>A thrown JavaScript exception. The only one the modelled code can throw is the
  \<open>TypeError\<close> of reading a property of \<open>undefined\<close> or \<open>null\<close>.\<close>

datatype error = TypeError

section \<open>FilterEngine: \<open>getFilteredItems\<close>\<close>

text \<open>\<open>tag?.tags_id?.name\<close>\<close>

definition tag_name :: "Tag option \<Rightarrow> string option" where
  "tag_name tg =
     (case tg of None \<Rightarrow> None
      | Some t \<Rightarrow> (case tags_id t of None \<Rightarrow> None | Some ti \<Rightarrow> name_t ti))"

text \<open>The callback of the search filter. A string operand of \<open>&&\<close> is truthy when it is
  non-empty.\<close>

definition searchMatches :: "'k builtins \<Rightarrow> string \<Rightarrow> StoreItem \<Rightarrow> bool" where
  "searchMatches env searchLower item \<longleftrightarrow>
     includes_str (toLowerCase env (name_s item)) searchLower \<or>
     includes_str (toLowerCase env (description item)) searchLower \<or>
     (case author item of None \<Rightarrow> False
      | Some a \<Rightarrow> (case username a of None \<Rightarrow> False
          | Some u \<Rightarrow> u \<noteq> [] \<and> includes_str (toLowerCase env u) searchLower)) \<or>
     (case tags item of None \<Rightarrow> False
      | Some ts \<Rightarrow> list_ex (\<lambda>tg. case tag_name tg of None \<Rightarrow> False
          | Some n \<Rightarrow> n \<noteq> [] \<and> includes_str (toLowerCase env n) searchLower) ts) \<or>
     (case technical item of None \<Rightarrow> False
      | Some t \<Rightarrow> (case last_tested_version t of None \<Rightarrow> False
          | Some v \<Rightarrow> v \<noteq> [] \<and> includes_str (toLowerCase env v) searchLower))"

text \<open>The callback of the tag filter.\<close>

definition tagMatches :: "string list \<Rightarrow> StoreItem \<Rightarrow> bool" where
  "tagMatches selected item \<longleftrightarrow>
     (case tags item of None \<Rightarrow> False
      | Some ts \<Rightarrow> list_ex (\<lambda>tg. case tag_name tg of None \<Rightarrow> False
          | Some n \<Rightarrow> n \<noteq> [] \<and> n \<in> set selected) ts)"

text \<open>The callback of the author filter,
  \<^verbatim>\<open>item.author.username.toLowerCase().includes(authorFilter.toLowerCase())\<close>:
  there is no optional chaining here, so a missing \<open>author\<close> or \<open>username\<close> throws.\<close>

definition authorMatches :: "'k builtins \<Rightarrow> string \<Rightarrow> StoreItem \<Rightarrow> error + bool" where
  "authorMatches env af item =
     (case author item of None \<Rightarrow> Inl TypeError
      | Some a \<Rightarrow> (case username a of None \<Rightarrow> Inl TypeError
          | Some u \<Rightarrow> Inr (includes_str (toLowerCase env u) (toLowerCase env af))))"

text \<open>The callback of the private filter, \<open>item.technical?.private === true\<close>.\<close>

definition privateMatches :: "StoreItem \<Rightarrow> bool" where
  "privateMatches item \<longleftrightarrow>
     (case technical item of None \<Rightarrow> False | Some t \<Rightarrow> private_s t = Some True)"

text \<open>\<open>Array.prototype.filter\<close> with a callback that may throw: the callback runs on the
  elements in order, and the first exception aborts the whole call.\<close>

fun filter_throwing :: "('a \<Rightarrow> error + bool) \<Rightarrow> 'a list \<Rightarrow> error + 'a list" where
  "filter_throwing p [] = Inr []"
| "filter_throwing p (x # xs) =
     (case p x of Inl e \<Rightarrow> Inl e
      | Inr b \<Rightarrow> (case filter_throwing p xs of Inl e \<Rightarrow> Inl e
          | Inr ys \<Rightarrow> Inr (if b then x # ys else ys)))"

text \<open>
  The sort step. \<open>Array.prototype.sort\<close> is stable, and each comparator is the difference of
  a numeric key (descending) or \<open>localeCompare\<close> (ascending), so the result is the stable
  sort by that key; \<open>sort_key\<close> is the stable insertion sort. A \<open>sortBy\<close> outside the five
  known values sorts nothing.
\<close>

definition sortItems :: "('k::linorder) builtins \<Rightarrow> string \<Rightarrow> StoreItem list \<Rightarrow> StoreItem list" where
  "sortItems env sb items =
     (if sb = ''popular'' then
        sort_key (\<lambda>a. - (likes (stats a) + downloads (stats a))) items
      else if sb = ''recent'' then
        sort_key (\<lambda>a. - getTime env (updated (dates a))) items
      else if sb = ''alphabetical'' then
        sort_key (\<lambda>a. localeKey env (name_s a)) items
      else if sb = ''downloads'' then
        sort_key (\<lambda>a. - downloads (stats a)) items
      else if sb = ''likes'' then
        sort_key (\<lambda>a. - likes (stats a)) items
      else items)"

text \<open>
  The local variable \<open>items\<close> holds a reference to an array. On the tabs \<open>flows\<close> and
  \<open>components\<close> it is the store's own array (\<open>items = storeData.flows\<close>); \<open>[...a, ...b]\<close>
  and \<open>filter\<close> allocate a fresh one. \<open>items.sort(...)\<close> sorts in place, whichever array
  that is, so the store is part of the result.
\<close>

datatype items_ref = FlowsRef | ComponentsRef | Fresh "StoreItem list"

definition deref :: "StoreData \<Rightarrow> items_ref \<Rightarrow> StoreItem list" where
  "deref sd r = (case r of FlowsRef \<Rightarrow> flows sd | ComponentsRef \<Rightarrow> components sd | Fresh xs \<Rightarrow> xs)"

definition sort_in_place ::
  "('k::linorder) builtins \<Rightarrow> string \<Rightarrow> StoreData \<Rightarrow> items_ref \<Rightarrow> StoreItem list \<times> StoreData" where
  "sort_in_place env sb sd r =
     (case r of
        FlowsRef \<Rightarrow> (sortItems env sb (flows sd), sd\<lparr>flows := sortItems env sb (flows sd)\<rparr>)
      | ComponentsRef \<Rightarrow>
          (sortItems env sb (components sd), sd\<lparr>components := sortItems env sb (components sd)\<rparr>)
      | Fresh xs \<Rightarrow> (sortItems env sb xs, sd))"

text \<open>The tab selection (first \<open>if\<close> chain); \<open>favorites\<close> is \<open>new Set(favoriteItemIds)\<close>.\<close>

definition select_tab :: "'a ShowcaseState_scheme \<Rightarrow> StoreData \<Rightarrow> items_ref" where
  "select_tab st sd =
     (if activeTab st = ''all'' then Fresh (flows sd @ components sd)
      else if activeTab st = ''flows'' then FlowsRef
      else if activeTab st = ''components'' then ComponentsRef
      else if activeTab st = ''favorites'' then
        Fresh (filter (\<lambda>item. id_s item \<in> set (favoriteItemIds st)) (flows sd @ components sd))
      else Fresh [])"

text \<open>The search and tag filters, each skipped when its criterion is empty.\<close>

definition apply_search :: "'k builtins \<Rightarrow> 'a ShowcaseState_scheme \<Rightarrow> StoreData \<Rightarrow> items_ref \<Rightarrow> items_ref" where
  "apply_search env st sd r =
     (if searchTerm st \<noteq> [] then
        Fresh (filter (searchMatches env (toLowerCase env (searchTerm st))) (deref sd r))
      else r)"

definition apply_tags :: "'a ShowcaseState_scheme \<Rightarrow> StoreData \<Rightarrow> items_ref \<Rightarrow> items_ref" where
  "apply_tags st sd r =
     (if length (selectedTags st) > 0 then
        Fresh (filter (tagMatches (selectedTags st)) (deref sd r))
      else r)"

definition apply_author ::
  "'k builtins \<Rightarrow> 'a ShowcaseState_scheme \<Rightarrow> StoreData \<Rightarrow> items_ref \<Rightarrow> error + items_ref" where
  "apply_author env st sd r =
     (if authorFilter st \<noteq> [] then
        (case filter_throwing (authorMatches env (authorFilter st)) (deref sd r) of
           Inl e \<Rightarrow> Inl e | Inr ys \<Rightarrow> Inr (Fresh ys))
      else Inr r)"

definition apply_private :: "'a ShowcaseState_scheme \<Rightarrow> StoreData \<Rightarrow> items_ref \<Rightarrow> items_ref" where
  "apply_private st sd r =
     (if showPrivateOnly st then Fresh (filter privateMatches (deref sd r)) else r)"

text \<open>
  \<open>getFilteredItems\<close>: the returned array, and the store as the call leaves it;
  \<open>Inl\<close> when the call throws.
\<close>

definition getFilteredItems ::
  "('k::linorder) builtins \<Rightarrow> 'a ShowcaseState_scheme \<Rightarrow> error + (StoreItem list \<times> StoreData option)" where
  "getFilteredItems env st =
     (case storeData st of
        None \<Rightarrow> Inr ([], None)
      | Some sd \<Rightarrow>
          (case apply_author env st sd (apply_tags st sd (apply_search env st sd (select_tab st sd))) of
             Inl e \<Rightarrow> Inl e
           | Inr r \<Rightarrow>
               (case sort_in_place env (sortBy st) sd (apply_private st sd r) of
                  (items, sd') \<Rightarrow> Inr (items, Some sd'))))"

section \<open>ShowcaseController: criteria changes and the page-reset effect\<close>

text \<open>
  The state setters the page calls from its event handlers. \<open>ClearAllFilters\<close> is the
  handler of the "Clear all filters" button, which calls four setters in one batch.
  \<open>NextPage\<close> and \<open>LastPage\<close> carry the \<open>totalPages\<close> of the render whose handler runs
  (\<open>setCurrentPage(prev => Math.min(totalPages, prev + 1))\<close>, \<open>setCurrentPage(totalPages)\<close>).
\<close>

datatype event =
    SetSearchTerm string
  | SetSelectedTags "string list"
  | SetAuthorFilter string
  | SetShowPrivateOnly bool
  | SetActiveTab string
  | SetSortBy string
  | SetTypeFilter string
  | SetShowFavoritesOnly bool
  | ClearAllFilters
  | FirstPage
  | PreviousPage
  | NextPage int
  | LastPage int

fun apply_setters :: "event \<Rightarrow> 'a ShowcaseState_scheme \<Rightarrow> 'a ShowcaseState_scheme" where
  "apply_setters (SetSearchTerm v) st = st\<lparr>searchTerm := v\<rparr>"
| "apply_setters (SetSelectedTags v) st = st\<lparr>selectedTags := v\<rparr>"
| "apply_setters (SetAuthorFilter v) st = st\<lparr>authorFilter := v\<rparr>"
| "apply_setters (SetShowPrivateOnly v) st = st\<lparr>showPrivateOnly := v\<rparr>"
| "apply_setters (SetActiveTab v) st = st\<lparr>activeTab := v\<rparr>"
| "apply_setters (SetSortBy v) st = st\<lparr>sortBy := v\<rparr>"
| "apply_setters (SetTypeFilter v) st = st\<lparr>typeFilter := v\<rparr>"
| "apply_setters (SetShowFavoritesOnly v) st = st\<lparr>showFavoritesOnly := v\<rparr>"
| "apply_setters ClearAllFilters st =
     st\<lparr>searchTerm := [], selectedTags := [], authorFilter := [], showPrivateOnly := False\<rparr>"
| "apply_setters FirstPage st = st\<lparr>currentPage := 1\<rparr>"
| "apply_setters PreviousPage st = st\<lparr>currentPage := max 1 (currentPage st - 1)\<rparr>"
| "apply_setters (NextPage tp) st = st\<lparr>currentPage := min tp (currentPage st + 1)\<rparr>"
| "apply_setters (LastPage tp) st = st\<lparr>currentPage := tp\<rparr>"

text \<open>
  React compares effect dependencies with \<open>Object.is\<close>: strings and booleans by value, the
  \<open>selectedTags\<close> array by reference. Every call of \<open>setSelectedTags\<close> passes a newly
  allocated array (the one call site passes the literal \<open>[]\<close>), so it always changes that
  dependency.
\<close>

fun replaces_selectedTags :: "event \<Rightarrow> bool" where
  "replaces_selectedTags (SetSelectedTags v) = True"
| "replaces_selectedTags ClearAllFilters = True"
| "replaces_selectedTags ev = False"

text \<open>
  \<^verbatim>\<open>useEffect(() => { setCurrentPage(1); },\<close>
  \<^verbatim>\<open>          [searchTerm, selectedTags, authorFilter, showPrivateOnly, activeTab]);\<close>
  run after the render that follows an event: \<open>prev\<close> is the state of the previous render.
\<close>

definition page_reset_effect ::
  "'a ShowcaseState_scheme \<Rightarrow> bool \<Rightarrow> 'a ShowcaseState_scheme \<Rightarrow> 'a ShowcaseState_scheme" where
  "page_reset_effect prev tagsReplaced st =
     (if searchTerm st \<noteq> searchTerm prev \<or> tagsReplaced \<or>
         authorFilter st \<noteq> authorFilter prev \<or>
         showPrivateOnly st \<noteq> showPrivateOnly prev \<or>
         activeTab st \<noteq> activeTab prev
      then st\<lparr>currentPage := 1\<rparr> else st)"

definition dispatch :: "event \<Rightarrow> 'a ShowcaseState_scheme \<Rightarrow> 'a ShowcaseState_scheme" where
  "dispatch ev st = page_reset_effect st (replaces_selectedTags ev) (apply_setters ev st)"

section \<open>FavoriteSync: \<open>toggleFavorite\<close>\<close>

record FavoriteToggleRequest =
  item_id :: string
  item_type :: item_type
  item_name :: string
  item_description :: "string option"
  item_author :: "string option"

record FavoriteToggleResponse =
  is_favorited :: bool
  message :: string
  favorite_id :: "string option"

text \<open>How an awaited promise settles.\<close>

datatype 'a settled = Fulfilled 'a | Rejected

text \<open>\<open>favorites.has(id)\<close> with \<open>favorites = new Set(favoriteItemIds)\<close>: what every card and
  the preview dialog receive as \<open>isFavorite\<close>.\<close>

definition isFavorite :: "'a ShowcaseState_scheme \<Rightarrow> string \<Rightarrow> bool" where
  "isFavorite st itemId \<longleftrightarrow> itemId \<in> set (favoriteItemIds st)"

text \<open>\<open>[...(storeData?.flows || []), ...(storeData?.components || [])]\<close>\<close>

definition all_items :: "'a ShowcaseState_scheme \<Rightarrow> StoreItem list" where
  "all_items st = (case storeData st of None \<Rightarrow> [] | Some sd \<Rightarrow> flows sd @ components sd)"

text \<open>\<open>item.author?.username || item.author?.full_name\<close>\<close>

definition author_label :: "StoreItem \<Rightarrow> string option" where
  "author_label item =
     (case author item of None \<Rightarrow> None
      | Some a \<Rightarrow> (case username a of None \<Rightarrow> full_name a
          | Some u \<Rightarrow> if u \<noteq> [] then Some u else full_name a))"

text \<open>
  \<open>toggleFavorite\<close> up to its \<open>await\<close>: the state it leaves while the request is in flight,
  and the request it sent (\<open>None\<close> when the id is not in the catalog and the function
  returns at once). The function writes no state before the \<open>await\<close>, and the mutation of
  \<open>useToggleFavorite\<close> has no \<open>onMutate\<close> callback.
\<close>

definition toggleFavorite_start ::
  "'a ShowcaseState_scheme \<Rightarrow> string \<Rightarrow> 'a ShowcaseState_scheme \<times> FavoriteToggleRequest option" where
  "toggleFavorite_start st itemId =
     (case find (\<lambda>i. id_s i = itemId) (all_items st) of
        None \<Rightarrow> (st, None)
      | Some item \<Rightarrow>
          (st, Some \<lparr>item_id = itemId, item_type = type_s item, item_name = name_s item,
                     item_description = Some (description item),
                     item_author = author_label item\<rparr>))"

text \<open>
  \<open>toggleFavorite\<close> after the \<open>await\<close>. On success the mutation's \<open>onSuccess\<close> invalidates the
  \<open>["favorites"]\<close> queries, then the function raises the success alert with the server's
  message; on failure the \<open>catch\<close> block raises the error alert.
\<close>

definition toggleFavorite_settle ::
  "'a ShowcaseState_scheme \<Rightarrow> FavoriteToggleResponse settled \<Rightarrow> 'a ShowcaseState_scheme" where
  "toggleFavorite_settle st outcome =
     (case outcome of
        Fulfilled result \<Rightarrow>
          st\<lparr>favoritesInvalidated := True, alerts := alerts st @ [SuccessData (message result)]\<rparr>
      | Rejected \<Rightarrow>
          st\<lparr>alerts := alerts st @ [ErrorData ''Failed to update favorites'' [''Please try again later.'']]\<rparr>)"

text \<open>The refetch of an invalidated \<open>["favorites", "item-ids"]\<close> query delivers the server's
  list.\<close>

definition favorites_refetched :: "'a ShowcaseState_scheme \<Rightarrow> string list \<Rightarrow> 'a ShowcaseState_scheme" where
  "favorites_refetched st ids = st\<lparr>favoriteItemIds := ids, favoritesInvalidated := False\<rparr>"

section \<open>Graph payloads\<close>

text \<open>
  A parsed JSON value. An object keeps its members in source order; \<open>JSON.parse\<close> keeps the
  last of duplicate keys. A value of type \<open>json option\<close> is a JavaScript value that may be
  \<open>undefined\<close> (\<open>None\<close>).
\<close>

datatype json =
    JNull
  | JBool bool
  | JNum rat
  | JStr string
  | JArr "json list"
  | JObj "(string \<times> json) list"

text \<open>Truthiness: \<open>undefined\<close>, \<open>null\<close>, \<open>false\<close>, \<open>0\<close> and \<open>""\<close> are falsy; every array and
  object is truthy, also the empty ones.\<close>

fun truthy :: "json option \<Rightarrow> bool" where
  "truthy None = False"
| "truthy (Some JNull) = False"
| "truthy (Some (JBool b)) = b"
| "truthy (Some (JNum n)) = (n \<noteq> 0)"
| "truthy (Some (JStr s)) = (s \<noteq> [])"
| "truthy (Some (JArr xs)) = True"
| "truthy (Some (JObj kvs)) = True"

text \<open>
  Property read \<open>v.k\<close>, for the keys the preview reads (\<open>data\<close>, \<open>nodes\<close>, \<open>edges\<close>,
  \<open>viewport\<close>): it throws on \<open>undefined\<close> and \<open>null\<close>, finds the member of an object, and is
  \<open>undefined\<close> on every other value.
\<close>

fun get_prop :: "json option \<Rightarrow> string \<Rightarrow> error + json option" where
  "get_prop None k = Inl TypeError"
| "get_prop (Some JNull) k = Inl TypeError"
| "get_prop (Some (JObj kvs)) k = Inr (map_of (rev kvs) k)"
| "get_prop (Some v) k = Inr None"

text \<open>\<open>v || d\<close>\<close>

fun or_else :: "json option \<Rightarrow> json \<Rightarrow> json" where
  "or_else None d = d"
| "or_else (Some v) d = (if truthy (Some v) then v else d)"

record FlowData =
  nodes :: json
  edges :: json
  viewport :: json

section \<open>ShowcaseController: \<open>grabFlow\<close>\<close>

text \<open>The payload of the add-flow mutation. Its members \<open>endpoint_name\<close>, \<open>icon\<close>,
  \<open>gradient\<close>, \<open>tags\<close> and \<open>mcp_enabled\<close> are all \<open>undefined\<close> in \<open>grabFlow\<close> and are left out;
  its \<open>description\<close> is \<open>description_f\<close> here.\<close>

record NewFlow =
  name :: string
  description_f :: string
  data :: FlowData
  folder_id :: string
  is_component :: bool

text \<open>
  \<open>grabFlow\<close> up to its \<open>await\<close>: it returns at once when the item is already being
  grabbed; otherwise it marks the item and sends the payload.
\<close>

definition grabFlow_start ::
  "'a ShowcaseState_scheme \<Rightarrow> StoreItem \<Rightarrow> 'a ShowcaseState_scheme \<times> NewFlow option" where
  "grabFlow_start st item =
     (if id_s item \<in> grabbingItems st then (st, None)
      else
        (st\<lparr>grabbingItems := insert (id_s item) (grabbingItems st)\<rparr>,
         Some \<lparr>name = name_s item @ '' (Grabbed)'',
               description_f = description item,
               data = \<lparr>nodes = JArr [], edges = JArr [],
                        viewport = JObj [(''zoom'', JNum 1), (''x'', JNum 0), (''y'', JNum 0)]\<rparr>,
               folder_id = (case myCollectionId st of None \<Rightarrow> []
                            | Some f \<Rightarrow> if f \<noteq> [] then f else []),
               is_component = (type_s item = COMPONENT)\<rparr>))"

text \<open>\<open>grabFlow\<close> after the \<open>await\<close>: the alert of the \<open>try\<close> or \<open>catch\<close> block, then the
  \<open>finally\<close> block. (The delayed navigation after a success is outside the model.)\<close>

definition grabFlow_settle ::
  "'a ShowcaseState_scheme \<Rightarrow> StoreItem \<Rightarrow> unit settled \<Rightarrow> 'a ShowcaseState_scheme" where
  "grabFlow_settle st item outcome =
     (let st' = (case outcome of
                   Fulfilled u \<Rightarrow>
                     st\<lparr>alerts := alerts st @
                        [SuccessData (''Flow grabbed successfully! '' @ [CHR 0x22] @ name_s item @
                                      [CHR 0x22] @ '' has been added to your workspace'')]\<rparr>
                 | Rejected \<Rightarrow>
                     st\<lparr>alerts := alerts st @
                        [ErrorData ''Failed to grab flow'' [''Please try again later.'']]\<rparr>)
      in st'\<lparr>grabbingItems := grabbingItems st' - {id_s item}\<rparr>)"

section \<open>PreviewSynthesizer: \<open>createPlaceholderFlow\<close> and \<open>loadFlowData\<close>\<close>

definition default_viewport :: json where
  "default_viewport = JObj [(''x'', JNum 0), (''y'', JNum 0), (''zoom'', JNum 1)]"

definition createPlaceholderFlow :: "StoreItem \<Rightarrow> FlowData" where
  "createPlaceholderFlow item =
     (let centerX = 250; centerY = 150 in
      if type_s item = COMPONENT then
        \<lparr>nodes = JArr
           [JObj [(''id'', JStr ''component-1''),
                  (''type'', JStr ''default''),
                  (''position'', JObj [(''x'', JNum centerX), (''y'', JNum centerY)]),
                  (''data'', JObj [(''label'', JStr (name_s item)),
                                   (''description'', JStr (description item))]),
                  (''style'', JObj [(''background'', JStr ''#f3f4f6''),
                                    (''border'', JStr ''2px solid #e5e7eb''),
                                    (''borderRadius'', JStr ''8px''),
                                    (''padding'', JStr ''10px''),
                                    (''minWidth'', JStr ''200px'')])]],
         edges = JArr [],
         viewport = default_viewport\<rparr>
      else
        \<lparr>nodes = JArr
           [JObj [(''id'', JStr ''start-1''),
                  (''type'', JStr ''input''),
                  (''position'', JObj [(''x'', JNum 50), (''y'', JNum centerY)]),
                  (''data'', JObj [(''label'', JStr ''Input'')]),
                  (''style'', JObj [(''background'', JStr ''#dbeafe''),
                                    (''border'', JStr ''2px solid #3b82f6'')])],
            JObj [(''id'', JStr ''process-1''),
                  (''type'', JStr ''default''),
                  (''position'', JObj [(''x'', JNum centerX), (''y'', JNum centerY)]),
                  (''data'', JObj [(''label'', JStr (name_s item))]),
                  (''style'', JObj [(''background'', JStr ''#f3f4f6''),
                                    (''border'', JStr ''2px solid #e5e7eb'')])],
            JObj [(''id'', JStr ''output-1''),
                  (''type'', JStr ''output''),
                  (''position'', JObj [(''x'', JNum 450), (''y'', JNum centerY)]),
                  (''data'', JObj [(''label'', JStr ''Output'')]),
                  (''style'', JObj [(''background'', JStr ''#dcfce7''),
                                    (''border'', JStr ''2px solid #22c55e'')])]],
         edges = JArr
           [JObj [(''id'', JStr ''e1-2''), (''source'', JStr ''start-1''),
                  (''target'', JStr ''process-1''), (''type'', JStr ''smoothstep'')],
            JObj [(''id'', JStr ''e2-3''), (''source'', JStr ''process-1''),
                  (''target'', JStr ''output-1''), (''type'', JStr ''smoothstep'')]],
         viewport = default_viewport\<rparr>)"

text \<open>
  What \<open>fetch\<close> and \<open>response.json()\<close> deliver: the fetch rejects, or it resolves with
  \<open>response.ok\<close> and a body that parses to a JSON value (\<open>Some\<close>) or does not (\<open>None\<close>, where
  \<open>response.json()\<close> rejects). The body is read only when \<open>response.ok\<close> holds.
\<close>

datatype fetch_result = FetchRejected | Response bool "json option"

text \<open>The dialog's state cells written by the effect.\<close>

record PreviewState =
  flowData :: "FlowData option"
  loading :: bool
  error_msg :: "string option"

text \<open>The \<open>else\<close> branches (placeholder, no error) and the \<open>catch\<close> block (placeholder and
  an error message), each followed by \<open>finally { setLoading(false) }\<close>.\<close>

definition use_placeholder :: "StoreItem \<Rightarrow> PreviewState" where
  "use_placeholder item =
     \<lparr>flowData = Some (createPlaceholderFlow item), loading = False, error_msg = None\<rparr>"

definition caught :: "StoreItem \<Rightarrow> PreviewState" where
  "caught item =
     \<lparr>flowData = Some (createPlaceholderFlow item), loading = False,
      error_msg = Some ''Failed to load flow preview''\<rparr>"

text \<open>
  \<open>loadFlowData\<close>, as it leaves the dialog once the request has settled. The test
  \<open>data.data && data.data.nodes && data.data.edges\<close> evaluates left to right and stops at the
  first falsy operand; a thrown \<open>TypeError\<close> lands in the \<open>catch\<close> block.
\<close>

definition loadFlowData :: "StoreItem \<Rightarrow> fetch_result \<Rightarrow> PreviewState" where
  "loadFlowData item res =
     (case res of
        FetchRejected \<Rightarrow> caught item
      | Response ok body \<Rightarrow>
          if ok then
            (case body of
               None \<Rightarrow> caught item
             | Some d \<Rightarrow>
                 (case get_prop (Some d) ''data'' of
                    Inl e \<Rightarrow> caught item
                  | Inr dd \<Rightarrow>
                      if \<not> truthy dd then use_placeholder item
                      else
                        (case get_prop dd ''nodes'' of
                           Inl e \<Rightarrow> caught item
                         | Inr ns \<Rightarrow>
                             if \<not> truthy ns then use_placeholder item
                             else
                               (case get_prop dd ''edges'' of
                                  Inl e \<Rightarrow> caught item
                                | Inr es \<Rightarrow>
                                    if \<not> truthy es then use_placeholder item
                                    else
                                      (case get_prop dd ''viewport'' of
                                         Inl e \<Rightarrow> caught item
                                       | Inr vp \<Rightarrow>
                                           \<lparr>flowData = Some
                                              \<lparr>nodes = or_else ns (JArr []),
                                               edges = or_else es (JArr []),
                                               viewport = or_else vp default_viewport\<rparr>,
                                            loading = False, error_msg = None\<rparr>)))))
          else use_placeholder item)"

text \<open>The dialog's effect on \<open>[item, isOpen]\<close>: without an item or when closed it clears
  \<open>flowData\<close> and starts no request.\<close>

definition preview_effect ::
  "PreviewState \<Rightarrow> StoreItem option \<Rightarrow> bool \<Rightarrow> fetch_result \<Rightarrow> PreviewState" where
  "preview_effect ps item isOpen res =
     (case item of
        None \<Rightarrow> ps\<lparr>flowData := None\<rparr>
      | Some it \<Rightarrow> if \<not> isOpen then ps\<lparr>flowData := None\<rparr> else loadFlowData it res)"

section \<open>Example inputs\<close>

text \<open>Concrete catalog items and states on which the properties below are evaluated.\<close>

definition example_item :: "string \<Rightarrow> string \<Rightarrow> item_type \<Rightarrow> int \<Rightarrow> StoreItem" where
  "example_item i n ty l =
     \<lparr>id_s = i, name_s = n, description = ''demo'', type_s = ty,
      author = Some \<lparr>username = Some ''alice'', full_name = None\<rparr>,
      stats = \<lparr>downloads = 0, likes = l\<rparr>,
      dates = \<lparr>created = ''2024-01-01'', updated = ''2024-01-02''\<rparr>,
      tags = Some [Some \<lparr>tags_id = Some \<lparr>name_t = Some ''rag'', id_t = Some ''t1''\<rparr>\<rparr>],
      technical = None\<rparr>"

definition example_store :: StoreData where
  "example_store =
     \<lparr>flows = [example_item ''f1'' ''Alpha'' FLOW 0, example_item ''f2'' ''Beta'' FLOW 5],
      components = [example_item ''c1'' ''Gamma'' COMPONENT 1],
      summary = \<lparr>total_items = 3, total_flows = 2, total_components = 1\<rparr>\<rparr>"

text \<open>The state after mount, with the example catalog loaded.\<close>

definition example_state :: ShowcaseState where
  "example_state =
     \<lparr>storeData = Some example_store, searchTerm = [], sortBy = ''popular'', activeTab = ''all'',
      selectedTags = [], authorFilter = [], showPrivateOnly = False, currentPage = 1,
      grabbingItems = {}, typeFilter = ''all'', showFavoritesOnly = False,
      favoriteItemIds = [], favoritesInvalidated = False, myCollectionId = Some ''folder-1'',
      alerts = []\<rparr>"

text \<open>An instance of the platform functions: identity lower-casing, a constant clock and
  the string length as collation key.\<close>

definition example_builtins :: "nat builtins" where
  "example_builtins = \<lparr>toLowerCase = (\<lambda>s. s), getTime = (\<lambda>s. 0), localeKey = length\<rparr>"

text \<open>A stored payload whose node and edge lists are both empty arrays.\<close>

definition empty_graph_body :: json where
  "empty_graph_body = JObj [(''data'', JObj [(''nodes'', JArr []), (''edges'', JArr [])])]"

text \<open>A stored payload with one node and one edge, and no viewport.\<close>

definition small_graph_body :: json where
  "small_graph_body =
     JObj [(''data'', JObj [(''nodes'', JArr [JObj [(''id'', JStr ''n1'')]]),
                            (''edges'', JArr [JObj [(''id'', JStr ''e1'')]])])]"

text \<open>A catalog item whose \<open>author\<close> member is missing.\<close>

definition anonymous_item :: StoreItem where
  "anonymous_item = (example_item ''f3'' ''Delta'' FLOW 2)\<lparr>author := None\<rparr>"

text \<open>The example state on the \<open>flows\<close> tab with the tag \<open>rag\<close> selected.\<close>

definition tag_state :: ShowcaseState where
  "tag_state = example_state\<lparr>selectedTags := [''rag''], activeTab := ''flows''\<rparr>"

text \<open>A catalog whose only flow has no author, and the example state over it.\<close>

definition anonymous_store :: StoreData where
  "anonymous_store =
     \<lparr>flows = [anonymous_item], components = [],
      summary = \<lparr>total_items = 1, total_flows = 1, total_components = 0\<rparr>\<rparr>"

definition anonymous_state :: ShowcaseState where
  "anonymous_state = example_state\<lparr>storeData := Some anonymous_store\<rparr>"

text \<open>A catalog of thirty flows with distinct ids, and the state after mount over it:
  its unfiltered list fills two pages.\<close>

definition large_store :: StoreData where
  "large_store =
     \<lparr>flows = map (\<lambda>k. example_item (replicate (Suc k) (CHR ''x'')) ''Item'' FLOW 0) [0..<30],
      components = [],
      summary = \<lparr>total_items = 30, total_flows = 30, total_components = 0\<rparr>\<rparr>"

definition large_state :: ShowcaseState where
  "large_state = example_state\<lparr>storeData := Some large_store\<rparr>"

section \<open>Properties of the paginator\<close>

lemma totalPages_int: "totalPages xs p = - ((- int (length xs)) div int p)"
  unfolding totalPages_def
  using ceiling_divide_eq_div[of "int (length xs)" "int p", where ?'a = rat] by simp

text \<open>
  Claim C3, as the code has it. For every list and every page size above zero,
  \<open>totalPages\<close> is the ceiling of \<open>length / pageSize\<close>: the least integer \<open>t\<close> with
  \<open>length \<le> t * pageSize\<close>. It is \<open>0\<close> for the empty list and at least \<open>1\<close> for every
  other list.
\<close>

theorem totalPages_is_ceiling:
  assumes "0 < pageSize"
  shows "int (length xs) \<le> totalPages xs pageSize * int pageSize \<and>
         (totalPages xs pageSize - 1) * int pageSize < int (length xs) \<and>
         (xs = [] \<longrightarrow> totalPages xs pageSize = 0) \<and>
         (xs \<noteq> [] \<longrightarrow> 1 \<le> totalPages xs pageSize)"
proof -
  define n where "n = int (length xs)"
  define p where "p = int pageSize"
  define t where "t = totalPages xs pageSize"
  have p: "0 < p" using assms by (simp add: p_def)
  have t: "t = - ((- n) div p)" by (simp add: t_def n_def p_def totalPages_int)
  define q where "q = (- n) div p"
  define r where "r = (- n) mod p"
  have m: "q * p + r = - n" unfolding q_def r_def by (rule div_mult_mod_eq)
  have r0: "0 \<le> r" and r1: "r < p" using p by (simp_all add: r_def)
  have tq: "t * p = - (q * p)" using t by (simp add: q_def)
  have a: "n \<le> t * p" using m r0 tq by linarith
  have "(t - 1) * p = t * p - p" by (simp add: algebra_simps)
  then have b: "(t - 1) * p < n" using m r1 tq by linarith
  have c: "xs = [] \<longrightarrow> t = 0" by (simp add: t n_def)
  have d: "xs \<noteq> [] \<longrightarrow> 1 \<le> t"
  proof
    assume "xs \<noteq> []"
    then have "0 < n" by (simp add: n_def)
    with a have "0 < t * p" by linarith
    with p have "0 < t" by (simp add: zero_less_mult_iff)
    then show "1 \<le> t" by simp
  qed
  show ?thesis using a b c d by (simp add: n_def p_def t_def)
qed

theorem totalPages_is_ceiling_witness:
  "(0::nat) < 24 \<and>
   int (length (flows example_store)) \<le> totalPages (flows example_store) 24 * int 24 \<and>
   (totalPages (flows example_store) 24 - 1) * int 24 < int (length (flows example_store)) \<and>
   1 \<le> totalPages (flows example_store) 24"
  using totalPages_is_ceiling[of 24 "flows example_store"] by (simp add: example_store_def)

text \<open>Claim C3 as stated fails on the empty list: with the page size of the source,
  \<open>totalPages\<close> of no items is \<open>0\<close>, not at least \<open>1\<close>.\<close>

theorem totalPages_empty_counterexample:
  "\<not> (1 \<le> totalPages ([] :: StoreItem list) itemsPerPage)"
  by (simp add: totalPages_def itemsPerPage_def)

section \<open>Properties of the filter pipeline\<close>

lemma select_tab_unused [simp]:
  "select_tab (st\<lparr>typeFilter := t, showFavoritesOnly := f\<rparr>) sd = select_tab st sd"
  by (simp add: select_tab_def)

lemma apply_search_unused [simp]:
  "apply_search env (st\<lparr>typeFilter := t, showFavoritesOnly := f\<rparr>) sd r = apply_search env st sd r"
  by (simp add: apply_search_def)

lemma apply_tags_unused [simp]:
  "apply_tags (st\<lparr>typeFilter := t, showFavoritesOnly := f\<rparr>) sd r = apply_tags st sd r"
  by (simp add: apply_tags_def)

lemma apply_author_unused [simp]:
  "apply_author env (st\<lparr>typeFilter := t, showFavoritesOnly := f\<rparr>) sd r = apply_author env st sd r"
  by (simp add: apply_author_def)

lemma apply_private_unused [simp]:
  "apply_private (st\<lparr>typeFilter := t, showFavoritesOnly := f\<rparr>) sd r = apply_private st sd r"
  by (simp add: apply_private_def)

text \<open>
  Claim C10. The controls \<open>typeFilter\<close> and \<open>showFavoritesOnly\<close> have no effect on the
  filtered result: for any two settings of them, with the rest of the state equal,
  \<open>getFilteredItems\<close> has the same outcome (the same ordered list and store, or the same
  exception).
\<close>

theorem unused_controls_no_effect:
  "getFilteredItems env (st\<lparr>typeFilter := t1, showFavoritesOnly := f1\<rparr>) =
   getFilteredItems env (st\<lparr>typeFilter := t2, showFavoritesOnly := f2\<rparr>)"
  by (cases "storeData st") (simp_all add: getFilteredItems_def cong: sum.case_cong)

lemma filter_throwing_Inr:
  "filter_throwing p xs = Inr ys \<Longrightarrow>
     ys = filter (\<lambda>x. p x = Inr True) xs \<and> (\<forall>x\<in>set xs. \<exists>b. p x = Inr b)"
proof (induction xs arbitrary: ys)
  case Nil
  then show ?case by simp
next
  case (Cons x xs)
  from Cons.prems obtain b zs where b: "p x = Inr b" and zs: "filter_throwing p xs = Inr zs"
    and ys: "ys = (if b then x # zs else zs)"
    by (auto split: sum.splits)
  from Cons.IH[OF zs] b ys show ?case by auto
qed

lemma filter_throwing_all_true:
  "\<forall>x\<in>set xs. p x = Inr True \<Longrightarrow> filter_throwing p xs = Inr xs"
  by (induction xs) simp_all

lemma set_sortItems [simp]: "set (sortItems env sb xs) = set xs"
  by (simp add: sortItems_def)

lemma sortItems_idem [simp]: "sortItems env sb (sortItems env sb xs) = sortItems env sb xs"
  by (simp add: sortItems_def sort_key_id_if_sorted)

lemma deref_Fresh [simp]: "deref sd (Fresh xs) = xs"
  by (simp add: deref_def)

lemma deref_apply_search:
  "deref sd (apply_search env st sd r) =
     (if searchTerm st \<noteq> [] then
        filter (searchMatches env (toLowerCase env (searchTerm st))) (deref sd r)
      else deref sd r)"
  by (simp add: apply_search_def)

lemma deref_apply_tags:
  "deref sd (apply_tags st sd r) =
     (if selectedTags st \<noteq> [] then filter (tagMatches (selectedTags st)) (deref sd r)
      else deref sd r)"
  by (simp add: apply_tags_def)

lemma deref_apply_private:
  "deref sd (apply_private st sd r) =
     (if showPrivateOnly st then filter privateMatches (deref sd r) else deref sd r)"
  by (simp add: apply_private_def)

lemma apply_author_Inr:
  assumes "apply_author env st sd r = Inr r'"
  shows "deref sd r' =
     (if authorFilter st \<noteq> [] then
        filter (\<lambda>x. authorMatches env (authorFilter st) x = Inr True) (deref sd r)
      else deref sd r)"
proof (cases "authorFilter st = []")
  case True
  with assms show ?thesis by (simp add: apply_author_def)
next
  case False
  with assms obtain ys where
    ys: "filter_throwing (authorMatches env (authorFilter st)) (deref sd r) = Inr ys"
    and r': "r' = Fresh ys"
    by (auto simp add: apply_author_def split: sum.splits)
  from filter_throwing_Inr[OF ys] r' False show ?thesis by simp
qed

lemma apply_author_all_true:
  assumes "authorFilter st \<noteq> [] \<Longrightarrow>
     \<forall>x\<in>set (deref sd r). authorMatches env (authorFilter st) x = Inr True"
  shows "\<exists>r'. apply_author env st sd r = Inr r' \<and> deref sd r' = deref sd r"
proof (cases "authorFilter st = []")
  case True
  then show ?thesis by (simp add: apply_author_def)
next
  case False
  from filter_throwing_all_true[OF assms[OF False]] False show ?thesis
    by (simp add: apply_author_def)
qed

lemma fst_sort_in_place: "fst (sort_in_place env sb sd r) = sortItems env sb (deref sd r)"
  by (cases r) (simp_all add: sort_in_place_def deref_def)

text \<open>The items a successful call returns: the tab's items that pass every enabled stage,
  sorted.\<close>

lemma getFilteredItems_Inr:
  assumes run: "getFilteredItems env st = Inr (out, sdo)" and sd: "storeData st = Some sd"
  shows "out = sortItems env (sortBy st)
           (filter (\<lambda>x. (searchTerm st = [] \<or> searchMatches env (toLowerCase env (searchTerm st)) x) \<and>
                        (selectedTags st = [] \<or> tagMatches (selectedTags st) x) \<and>
                        (authorFilter st = [] \<or> authorMatches env (authorFilter st) x = Inr True) \<and>
                        (\<not> showPrivateOnly st \<or> privateMatches x))
              (deref sd (select_tab st sd)))"
proof -
  let ?r2 = "apply_tags st sd (apply_search env st sd (select_tab st sd))"
  from run sd obtain r3 where r3: "apply_author env st sd ?r2 = Inr r3"
    and out: "out = fst (sort_in_place env (sortBy st) sd (apply_private st sd r3))"
    by (auto simp add: getFilteredItems_def split: sum.splits prod.splits)
  have "deref sd (apply_private st sd r3) =
          filter (\<lambda>x. (searchTerm st = [] \<or> searchMatches env (toLowerCase env (searchTerm st)) x) \<and>
                        (selectedTags st = [] \<or> tagMatches (selectedTags st) x) \<and>
                        (authorFilter st = [] \<or> authorMatches env (authorFilter st) x = Inr True) \<and>
                        (\<not> showPrivateOnly st \<or> privateMatches x))
              (deref sd (select_tab st sd))"
    unfolding deref_apply_private apply_author_Inr[OF r3] deref_apply_tags deref_apply_search
    by (auto intro: filter_cong)
  with out show ?thesis by (simp add: fst_sort_in_place)
qed

text \<open>Unfolding sets for evaluating the pipeline on the example inputs.\<close>

lemmas fixture_defs = tag_state_def example_state_def example_store_def example_item_def
  example_builtins_def anonymous_state_def anonymous_store_def anonymous_item_def
lemmas pipeline_defs = getFilteredItems_def select_tab_def apply_search_def apply_tags_def
  apply_author_def apply_private_def sort_in_place_def sortItems_def tagMatches_def tag_name_def
  deref_def searchMatches_def authorMatches_def privateMatches_def includes_str_def

lemma tag_state_run:
  "getFilteredItems example_builtins tag_state =
     Inr ([example_item ''f2'' ''Beta'' FLOW 5, example_item ''f1'' ''Alpha'' FLOW 0],
          Some example_store)"
  by (simp add: fixture_defs pipeline_defs)

lemma tagMatches_has_tag:
  assumes "tagMatches selected item"
  shows "\<exists>ts tg ti n. tags item = Some ts \<and> Some tg \<in> set ts \<and> tags_id tg = Some ti \<and>
           name_t ti = Some n \<and> n \<in> set selected"
proof -
  from assms obtain ts where ts: "tags item = Some ts"
    and ex: "list_ex (\<lambda>tg. case tag_name tg of None \<Rightarrow> False
                | Some n \<Rightarrow> n \<noteq> [] \<and> n \<in> set selected) ts"
    by (auto simp add: tagMatches_def split: option.splits)
  from ex obtain t n where t: "t \<in> set ts" and n: "tag_name t = Some n" "n \<in> set selected"
    by (auto simp add: list_ex_iff split: option.splits)
  from n(1) obtain tg ti where "t = Some tg" "tags_id tg = Some ti" "name_t ti = Some n"
    by (auto simp add: tag_name_def split: option.splits)
  with ts t n show ?thesis by blast
qed

text \<open>
  Claim C7. When \<open>selectedTags\<close> is non-empty, every item that \<open>getFilteredItems\<close> returns
  has at least one well-formed tag whose name is in \<open>selectedTags\<close> (entries without a name
  contribute nothing); and the stage is conjunctive with the others: the returned items are
  exactly the items of the selected tab that pass the tag filter and every other enabled
  stage.
\<close>

theorem tag_filter_sound:
  assumes "getFilteredItems env st = Inr (out, sd')" and "selectedTags st \<noteq> []"
  shows "(\<forall>item\<in>set out. \<exists>ts tg ti n. tags item = Some ts \<and> Some tg \<in> set ts \<and>
            tags_id tg = Some ti \<and> name_t ti = Some n \<and> n \<in> set (selectedTags st)) \<and>
         (\<forall>sd. storeData st = Some sd \<longrightarrow>
            set out = {x \<in> set (deref sd (select_tab st sd)).
               tagMatches (selectedTags st) x \<and>
               (searchTerm st = [] \<or> searchMatches env (toLowerCase env (searchTerm st)) x) \<and>
               (authorFilter st = [] \<or> authorMatches env (authorFilter st) x = Inr True) \<and>
               (\<not> showPrivateOnly st \<or> privateMatches x)})"
proof (cases "storeData st")
  case None
  with assms(1) have "out = []" by (simp add: getFilteredItems_def)
  with None show ?thesis by simp
next
  case (Some sd)
  note out = getFilteredItems_Inr[OF assms(1) Some]
  have a: "\<forall>item\<in>set out. tagMatches (selectedTags st) item"
    using assms(2) by (subst out) auto
  have b: "set out = {x \<in> set (deref sd (select_tab st sd)).
               tagMatches (selectedTags st) x \<and>
               (searchTerm st = [] \<or> searchMatches env (toLowerCase env (searchTerm st)) x) \<and>
               (authorFilter st = [] \<or> authorMatches env (authorFilter st) x = Inr True) \<and>
               (\<not> showPrivateOnly st \<or> privateMatches x)}"
    using assms(2) by (subst out) auto
  have a': "\<forall>item\<in>set out. \<exists>ts tg ti n. tags item = Some ts \<and> Some tg \<in> set ts \<and>
            tags_id tg = Some ti \<and> name_t ti = Some n \<and> n \<in> set (selectedTags st)"
    using a tagMatches_has_tag by blast
  show ?thesis
  proof (intro conjI allI impI)
    show "\<forall>item\<in>set out. \<exists>ts tg ti n. tags item = Some ts \<and> Some tg \<in> set ts \<and>
            tags_id tg = Some ti \<and> name_t ti = Some n \<and> n \<in> set (selectedTags st)"
      by (rule a')
  next
    fix sd0 assume "storeData st = Some sd0"
    with Some have "sd0 = sd" by simp
    with b show "set out = {x \<in> set (deref sd0 (select_tab st sd0)).
               tagMatches (selectedTags st) x \<and>
               (searchTerm st = [] \<or> searchMatches env (toLowerCase env (searchTerm st)) x) \<and>
               (authorFilter st = [] \<or> authorMatches env (authorFilter st) x = Inr True) \<and>
               (\<not> showPrivateOnly st \<or> privateMatches x)}" by simp
  qed
qed

theorem tag_filter_sound_witness:
  "getFilteredItems example_builtins tag_state =
     Inr ([example_item ''f2'' ''Beta'' FLOW 5, example_item ''f1'' ''Alpha'' FLOW 0],
          Some example_store) \<and>
   selectedTags tag_state \<noteq> [] \<and>
   (\<exists>ts tg ti n. tags (example_item ''f2'' ''Beta'' FLOW 5) = Some ts \<and> Some tg \<in> set ts \<and>
      tags_id tg = Some ti \<and> name_t ti = Some n \<and> n \<in> set (selectedTags tag_state)) \<and>
   (\<exists>ts tg ti n. tags (example_item ''f1'' ''Alpha'' FLOW 0) = Some ts \<and> Some tg \<in> set ts \<and>
      tags_id tg = Some ti \<and> name_t ti = Some n \<and> n \<in> set (selectedTags tag_state))"
proof -
  have ne: "selectedTags tag_state \<noteq> []" by (simp add: tag_state_def)
  from tag_filter_sound[OF tag_state_run ne] have
    "\<forall>item\<in>set [example_item ''f2'' ''Beta'' FLOW 5, example_item ''f1'' ''Alpha'' FLOW 0].
       \<exists>ts tg ti n. tags item = Some ts \<and> Some tg \<in> set ts \<and> tags_id tg = Some ti \<and>
         name_t ti = Some n \<and> n \<in> set (selectedTags tag_state)"
    by blast
  then show ?thesis using tag_state_run ne by simp
qed

lemma getFilteredItems_out:
  assumes run: "getFilteredItems env st = Inr (out, sdo)"
  shows "\<exists>ys. out = sortItems env (sortBy st) ys \<and>
           (\<forall>x\<in>set ys.
              (searchTerm st = [] \<or> searchMatches env (toLowerCase env (searchTerm st)) x) \<and>
              (selectedTags st = [] \<or> tagMatches (selectedTags st) x) \<and>
              (authorFilter st = [] \<or> authorMatches env (authorFilter st) x = Inr True) \<and>
              (\<not> showPrivateOnly st \<or> privateMatches x)) \<and>
           (activeTab st = ''favorites'' \<longrightarrow> (\<forall>x\<in>set ys. id_s x \<in> set (favoriteItemIds st))) \<and>
           (activeTab st \<noteq> ''all'' \<and> activeTab st \<noteq> ''flows'' \<and> activeTab st \<noteq> ''components'' \<and>
            activeTab st \<noteq> ''favorites'' \<longrightarrow> ys = [])"
proof (cases "storeData st")
  case None
  with run have "out = []" by (simp add: getFilteredItems_def)
  then have "out = sortItems env (sortBy st) []" by (simp add: sortItems_def)
  then show ?thesis by (intro exI[of _ "[]"]) simp
next
  case (Some sd)
  let ?ys = "filter (\<lambda>x. (searchTerm st = [] \<or> searchMatches env (toLowerCase env (searchTerm st)) x) \<and>
                        (selectedTags st = [] \<or> tagMatches (selectedTags st) x) \<and>
                        (authorFilter st = [] \<or> authorMatches env (authorFilter st) x = Inr True) \<and>
                        (\<not> showPrivateOnly st \<or> privateMatches x))
              (deref sd (select_tab st sd))"
  have 1: "out = sortItems env (sortBy st) ?ys" by (rule getFilteredItems_Inr[OF run Some])
  have 2: "activeTab st = ''favorites'' \<longrightarrow> (\<forall>x\<in>set ?ys. id_s x \<in> set (favoriteItemIds st))"
    by (auto simp add: select_tab_def)
  have 3: "activeTab st \<noteq> ''all'' \<and> activeTab st \<noteq> ''flows'' \<and> activeTab st \<noteq> ''components'' \<and>
            activeTab st \<noteq> ''favorites'' \<longrightarrow> ?ys = []"
    by (simp add: select_tab_def)
  have 4: "\<forall>x\<in>set ?ys.
              (searchTerm st = [] \<or> searchMatches env (toLowerCase env (searchTerm st)) x) \<and>
              (selectedTags st = [] \<or> tagMatches (selectedTags st) x) \<and>
              (authorFilter st = [] \<or> authorMatches env (authorFilter st) x = Inr True) \<and>
              (\<not> showPrivateOnly st \<or> privateMatches x)"
    by simp
  from 1 2 3 4 show ?thesis by (intro exI[of _ ?ys] conjI)
qed

lemma getFilteredItems_all_pass:
  assumes sd: "storeData st = Some sd"
    and pass: "\<forall>x\<in>set (deref sd (select_tab st sd)).
              (searchTerm st = [] \<or> searchMatches env (toLowerCase env (searchTerm st)) x) \<and>
              (selectedTags st = [] \<or> tagMatches (selectedTags st) x) \<and>
              (authorFilter st = [] \<or> authorMatches env (authorFilter st) x = Inr True) \<and>
              (\<not> showPrivateOnly st \<or> privateMatches x)"
  shows "\<exists>sdo. getFilteredItems env st =
           Inr (sortItems env (sortBy st) (deref sd (select_tab st sd)), sdo)"
proof -
  let ?tab = "deref sd (select_tab st sd)"
  let ?r2 = "apply_tags st sd (apply_search env st sd (select_tab st sd))"
  have s1: "deref sd (apply_search env st sd (select_tab st sd)) = ?tab"
    using pass by (auto simp add: deref_apply_search filter_id_conv)
  have s2: "deref sd ?r2 = ?tab"
    using pass by (auto simp add: deref_apply_tags s1 filter_id_conv)
  have "authorFilter st \<noteq> [] \<Longrightarrow>
          \<forall>x\<in>set (deref sd ?r2). authorMatches env (authorFilter st) x = Inr True"
    using pass by (simp add: s2)
  from apply_author_all_true[OF this] obtain r3 where
    r3: "apply_author env st sd ?r2 = Inr r3" and d3: "deref sd r3 = ?tab"
    using s2 by auto
  have s4: "deref sd (apply_private st sd r3) = ?tab"
    using pass by (auto simp add: deref_apply_private d3 filter_id_conv)
  obtain items sd4 where sp: "sort_in_place env (sortBy st) sd (apply_private st sd r3) = (items, sd4)"
    by (cases "sort_in_place env (sortBy st) sd (apply_private st sd r3)") auto
  then have "items = sortItems env (sortBy st) ?tab"
    using fst_sort_in_place[of env "sortBy st" sd "apply_private st sd r3"] s4 by simp
  with sd r3 sp show ?thesis by (simp add: getFilteredItems_def)
qed

text \<open>
  Claim C8. \<open>getFilteredItems\<close> is idempotent: when a call returns the list \<open>out\<close>, a call
  with the same criteria and favorite set on a store that presents \<open>out\<close> to the active tab
  (as its \<open>flows\<close> on the \<open>flows\<close> tab, as its \<open>components\<close> on the \<open>components\<close> tab, as
  \<open>flows\<close> followed by \<open>components\<close> otherwise) returns \<open>out\<close> again, in the same order.
\<close>

theorem getFilteredItems_idempotent:
  assumes run: "getFilteredItems env st = Inr (out, sd')"
    and fl: "activeTab st = ''flows'' \<Longrightarrow> flows sd2 = out"
    and co: "activeTab st = ''components'' \<Longrightarrow> components sd2 = out"
    and al: "activeTab st \<noteq> ''flows'' \<Longrightarrow> activeTab st \<noteq> ''components'' \<Longrightarrow>
               flows sd2 @ components sd2 = out"
  shows "\<exists>sd3. getFilteredItems env (st\<lparr>storeData := Some sd2\<rparr>) = Inr (out, sd3)"
proof -
  let ?st2 = "st\<lparr>storeData := Some sd2\<rparr>"
  from getFilteredItems_out[OF run] obtain ys where
    out: "out = sortItems env (sortBy st) ys"
    and pass: "\<forall>x\<in>set ys.
              (searchTerm st = [] \<or> searchMatches env (toLowerCase env (searchTerm st)) x) \<and>
              (selectedTags st = [] \<or> tagMatches (selectedTags st) x) \<and>
              (authorFilter st = [] \<or> authorMatches env (authorFilter st) x = Inr True) \<and>
              (\<not> showPrivateOnly st \<or> privateMatches x)"
    and fav: "activeTab st = ''favorites'' \<longrightarrow> (\<forall>x\<in>set ys. id_s x \<in> set (favoriteItemIds st))"
    and other: "activeTab st \<noteq> ''all'' \<and> activeTab st \<noteq> ''flows'' \<and>
                activeTab st \<noteq> ''components'' \<and> activeTab st \<noteq> ''favorites'' \<longrightarrow> ys = []"
    by blast
  have set_out: "set out = set ys" by (simp add: out)
  have tab: "deref sd2 (select_tab ?st2 sd2) = out"
  proof -
    consider (a) "activeTab st = ''all''" | (f) "activeTab st = ''flows''"
      | (c) "activeTab st = ''components''" | (v) "activeTab st = ''favorites''"
      | (o) "activeTab st \<noteq> ''all''" "activeTab st \<noteq> ''flows''"
            "activeTab st \<noteq> ''components''" "activeTab st \<noteq> ''favorites''"
      by blast
    then show ?thesis
    proof cases
      case a then show ?thesis using al by (simp add: select_tab_def)
    next
      case f then show ?thesis using fl by (simp add: select_tab_def deref_def)
    next
      case c then show ?thesis using co by (simp add: select_tab_def deref_def)
    next
      case v
      then have "flows sd2 @ components sd2 = out" using al by simp
      moreover have "filter (\<lambda>item. id_s item \<in> set (favoriteItemIds st)) out = out"
        using fav v set_out by (simp add: filter_id_conv)
      ultimately show ?thesis using v by (simp add: select_tab_def)
    next
      case o
      then have "ys = []" using other by simp
      then have "out = []" using out by (simp add: sortItems_def)
      then show ?thesis using o by (simp add: select_tab_def)
    qed
  qed
  have pass2: "\<forall>x\<in>set (deref sd2 (select_tab ?st2 sd2)).
              (searchTerm ?st2 = [] \<or> searchMatches env (toLowerCase env (searchTerm ?st2)) x) \<and>
              (selectedTags ?st2 = [] \<or> tagMatches (selectedTags ?st2) x) \<and>
              (authorFilter ?st2 = [] \<or> authorMatches env (authorFilter ?st2) x = Inr True) \<and>
              (\<not> showPrivateOnly ?st2 \<or> privateMatches x)"
    unfolding tab using pass set_out by simp
  have "storeData ?st2 = Some sd2" by simp
  from getFilteredItems_all_pass[OF this pass2] obtain sd3 where
    "getFilteredItems env ?st2 = Inr (sortItems env (sortBy ?st2) (deref sd2 (select_tab ?st2 sd2)), sd3)"
    by blast
  moreover have "sortItems env (sortBy ?st2) (deref sd2 (select_tab ?st2 sd2)) = out"
    unfolding tab by (simp add: out)
  ultimately show ?thesis by auto
qed

theorem getFilteredItems_idempotent_witness:
  "getFilteredItems example_builtins tag_state =
     Inr ([example_item ''f2'' ''Beta'' FLOW 5, example_item ''f1'' ''Alpha'' FLOW 0],
          Some example_store) \<and>
   (\<exists>sd3. getFilteredItems example_builtins
      (tag_state\<lparr>storeData := Some
         (example_store\<lparr>flows := [example_item ''f2'' ''Beta'' FLOW 5,
                                    example_item ''f1'' ''Alpha'' FLOW 0]\<rparr>)\<rparr>) =
     Inr ([example_item ''f2'' ''Beta'' FLOW 5, example_item ''f1'' ''Alpha'' FLOW 0], sd3))"
proof -
  have tab: "activeTab tag_state = ''flows''" by (simp add: tag_state_def example_state_def)
  have "\<exists>sd3. getFilteredItems example_builtins
      (tag_state\<lparr>storeData := Some
         (example_store\<lparr>flows := [example_item ''f2'' ''Beta'' FLOW 5,
                                    example_item ''f1'' ''Alpha'' FLOW 0]\<rparr>)\<rparr>) =
     Inr ([example_item ''f2'' ''Beta'' FLOW 5, example_item ''f1'' ''Alpha'' FLOW 0], sd3)"
    by (rule getFilteredItems_idempotent[OF tag_state_run]) (simp_all add: tab)
  with tag_state_run show ?thesis by blast
qed

text \<open>Outside the two aliasing tabs, and whenever a filter stage has run, the sort works
  on a copy and the store is returned as it was.\<close>

lemma store_kept_when_copied:
  assumes run: "getFilteredItems env st = Inr (out, sdo)"
    and copied: "(activeTab st \<noteq> ''flows'' \<and> activeTab st \<noteq> ''components'') \<or> searchTerm st \<noteq> [] \<or>
       selectedTags st \<noteq> [] \<or> authorFilter st \<noteq> [] \<or> showPrivateOnly st"
  shows "sdo = storeData st"
proof (cases "storeData st")
  case None
  with run show ?thesis by (simp add: getFilteredItems_def)
next
  case (Some sd)
  let ?r2 = "apply_tags st sd (apply_search env st sd (select_tab st sd))"
  from run Some obtain r3 where r3: "apply_author env st sd ?r2 = Inr r3"
    and sdo: "sdo = Some (snd (sort_in_place env (sortBy st) sd (apply_private st sd r3)))"
    by (auto simp add: getFilteredItems_def split: sum.splits prod.splits)
  have "\<exists>xs. apply_private st sd r3 = Fresh xs"
    using copied r3
    by (auto simp add: apply_private_def apply_author_def apply_tags_def apply_search_def
          select_tab_def split: sum.splits if_splits)
  then obtain xs where "apply_private st sd r3 = Fresh xs" by blast
  then show ?thesis using sdo Some by (simp add: sort_in_place_def)
qed

text \<open>
  Claim C4 fails on the code. On the \<open>flows\<close> tab with no filter active, \<open>items\<close> is the
  store's own \<open>flows\<close> array and the sort runs in place: for the example catalog, whose
  flows are \<open>f1\<close> (0 likes) then \<open>f2\<close> (5 likes), the call leaves the store's \<open>flows\<close> in the
  order \<open>f2\<close>, \<open>f1\<close>.
\<close>

theorem sort_reorders_store_flows:
  "getFilteredItems env (example_state\<lparr>activeTab := ''flows''\<rparr>) =
     Inr ([example_item ''f2'' ''Beta'' FLOW 5, example_item ''f1'' ''Alpha'' FLOW 0],
          Some (example_store\<lparr>flows := [example_item ''f2'' ''Beta'' FLOW 5,
                                         example_item ''f1'' ''Alpha'' FLOW 0]\<rparr>)) \<and>
   storeData (example_state\<lparr>activeTab := ''flows''\<rparr>) = Some example_store \<and>
   flows example_store = [example_item ''f1'' ''Alpha'' FLOW 0, example_item ''f2'' ''Beta'' FLOW 5] \<and>
   flows example_store \<noteq> [example_item ''f2'' ''Beta'' FLOW 5, example_item ''f1'' ''Alpha'' FLOW 0]"
  by (simp add: fixture_defs pipeline_defs)

text \<open>
  Claim C6 fails on the code. With a non-empty author filter, an item without \<open>author\<close>
  makes \<open>getFilteredItems\<close> throw a \<open>TypeError\<close>; the search filter, which guards the same
  read, returns normally on the same catalog.
\<close>

theorem author_filter_throws_on_missing_author:
  "getFilteredItems env (anonymous_state\<lparr>authorFilter := ''al''\<rparr>) = Inl TypeError \<and>
   getFilteredItems example_builtins (anonymous_state\<lparr>searchTerm := ''al''\<rparr>) =
     Inr ([], Some anonymous_store)"
  by (simp add: fixture_defs pipeline_defs)

section \<open>Properties of the page-reset effect\<close>

text \<open>
  Claim C5, as the code has it. Every event that changes \<open>searchTerm\<close>, \<open>authorFilter\<close>,
  \<open>showPrivateOnly\<close> or \<open>activeTab\<close> to a different value, or that replaces the
  \<open>selectedTags\<close> array, resets the current page to \<open>1\<close>: each lone setter, the
  "Clear all filters" handler (the only caller of \<open>setSelectedTags\<close> and
  \<open>setShowPrivateOnly\<close>), and any event whatever with that effect. A change of \<open>sortBy\<close>
  leaves the current page as it is.
\<close>

theorem filter_change_resets_page:
  "(v1 \<noteq> searchTerm st \<longrightarrow> currentPage (dispatch (SetSearchTerm v1) st) = 1) \<and>
   currentPage (dispatch (SetSelectedTags ts) st) = 1 \<and>
   (v2 \<noteq> authorFilter st \<longrightarrow> currentPage (dispatch (SetAuthorFilter v2) st) = 1) \<and>
   (b \<noteq> showPrivateOnly st \<longrightarrow> currentPage (dispatch (SetShowPrivateOnly b) st) = 1) \<and>
   (v3 \<noteq> activeTab st \<longrightarrow> currentPage (dispatch (SetActiveTab v3) st) = 1) \<and>
   currentPage (dispatch ClearAllFilters st) = 1 \<and>
   (\<forall>ev. searchTerm (dispatch ev st) \<noteq> searchTerm st \<or> replaces_selectedTags ev \<or>
         authorFilter (dispatch ev st) \<noteq> authorFilter st \<or>
         showPrivateOnly (dispatch ev st) \<noteq> showPrivateOnly st \<or>
         activeTab (dispatch ev st) \<noteq> activeTab st
         \<longrightarrow> currentPage (dispatch ev st) = 1) \<and>
   currentPage (dispatch (SetSortBy v4) st) = currentPage st"
proof (intro conjI allI impI)
  fix ev
  assume a: "searchTerm (dispatch ev st) \<noteq> searchTerm st \<or> replaces_selectedTags ev \<or>
         authorFilter (dispatch ev st) \<noteq> authorFilter st \<or>
         showPrivateOnly (dispatch ev st) \<noteq> showPrivateOnly st \<or>
         activeTab (dispatch ev st) \<noteq> activeTab st"
  have same: "searchTerm (dispatch ev st) = searchTerm (apply_setters ev st)"
    "authorFilter (dispatch ev st) = authorFilter (apply_setters ev st)"
    "showPrivateOnly (dispatch ev st) = showPrivateOnly (apply_setters ev st)"
    "activeTab (dispatch ev st) = activeTab (apply_setters ev st)"
    by (simp_all add: dispatch_def page_reset_effect_def)
  from a show "currentPage (dispatch ev st) = 1"
    unfolding same by (auto simp add: dispatch_def page_reset_effect_def)
qed (simp_all add: dispatch_def page_reset_effect_def)

theorem filter_change_resets_page_witness:
  "''rag'' \<noteq> searchTerm (dispatch (NextPage 2) large_state) \<and>
   currentPage (dispatch (SetSearchTerm ''rag'') (dispatch (NextPage 2) large_state)) = 1 \<and>
   ''bob'' \<noteq> authorFilter (dispatch (NextPage 2) large_state) \<and>
   currentPage (dispatch (SetAuthorFilter ''bob'') (dispatch (NextPage 2) large_state)) = 1 \<and>
   True \<noteq> showPrivateOnly (dispatch (NextPage 2) large_state) \<and>
   currentPage (dispatch (SetShowPrivateOnly True) (dispatch (NextPage 2) large_state)) = 1 \<and>
   ''flows'' \<noteq> activeTab (dispatch (NextPage 2) large_state) \<and>
   currentPage (dispatch (SetActiveTab ''flows'') (dispatch (NextPage 2) large_state)) = 1 \<and>
   replaces_selectedTags ClearAllFilters \<and>
   currentPage (dispatch ClearAllFilters (dispatch (NextPage 2) large_state)) = 1 \<and>
   currentPage (dispatch (NextPage 2) large_state) = 2"
  using filter_change_resets_page
    [of "''rag''" "dispatch (NextPage 2) large_state" "[]" "''bob''" True "''flows''" "''recent''"]
  by (simp add: dispatch_def page_reset_effect_def large_state_def example_state_def)

text \<open>The unfiltered list of the thirty-flow catalog has two pages, so its \<open>Next\<close> button
  leads to page \<open>2\<close>.\<close>

lemma length_sortItems [simp]: "length (sortItems env sb xs) = length xs"
  by (simp add: sortItems_def)

lemma large_state_pages:
  "\<exists>items sd. getFilteredItems example_builtins large_state = Inr (items, sd) \<and>
      totalPages items itemsPerPage = 2"
proof -
  have sd: "storeData large_state = Some large_store" by (simp add: large_state_def)
  have crit: "searchTerm large_state = []" "selectedTags large_state = []"
    "authorFilter large_state = []" "\<not> showPrivateOnly large_state" "activeTab large_state = ''all''"
    by (simp_all add: large_state_def example_state_def)
  from getFilteredItems_all_pass[OF sd, of example_builtins] crit obtain sdo where
    run: "getFilteredItems example_builtins large_state =
      Inr (sortItems example_builtins (sortBy large_state)
             (deref large_store (select_tab large_state large_store)), sdo)"
    by auto
  have "length (deref large_store (select_tab large_state large_store)) = 30"
    using crit by (simp add: select_tab_def large_store_def)
  then have "totalPages (sortItems example_builtins (sortBy large_state)
             (deref large_store (select_tab large_state large_store))) itemsPerPage = 2"
    by (simp add: totalPages_int itemsPerPage_def)
  with run show ?thesis by blast
qed

text \<open>Claim C5 as stated fails for the sort key: on page \<open>2\<close> of the thirty-flow catalog,
  changing \<open>sortBy\<close> from \<open>popular\<close> to \<open>recent\<close> changes the criteria and leaves the page
  at \<open>2\<close>.\<close>

theorem sort_change_keeps_page_counterexample:
  "(\<exists>items sd. getFilteredItems example_builtins large_state = Inr (items, sd) \<and>
      totalPages items itemsPerPage = 2) \<and>
   currentPage (dispatch (NextPage 2) large_state) = 2 \<and>
   sortBy (dispatch (SetSortBy ''recent'') (dispatch (NextPage 2) large_state)) \<noteq>
     sortBy (dispatch (NextPage 2) large_state) \<and>
   currentPage (dispatch (SetSortBy ''recent'') (dispatch (NextPage 2) large_state)) \<noteq> 1"
  using large_state_pages
  by (simp add: dispatch_def page_reset_effect_def large_state_def example_state_def)

section \<open>Properties of the favorite toggle\<close>

text \<open>
  Claim C1, as the code has it. A toggle does not change the favorite-id set, and so not
  the displayed favorite state of the item, while its request is in flight. If the request
  fails, the favorite-id set is exactly as it was before the toggle was issued, the cache is
  not invalidated, and exactly one error alert is raised.
\<close>

theorem toggle_without_optimistic_update:
  "favoriteItemIds (fst (toggleFavorite_start st itemId)) = favoriteItemIds st \<and>
   (isFavorite (fst (toggleFavorite_start st itemId)) itemId \<longleftrightarrow> isFavorite st itemId) \<and>
   favoriteItemIds (toggleFavorite_settle (fst (toggleFavorite_start st itemId)) Rejected) =
     favoriteItemIds st \<and>
   favoritesInvalidated (toggleFavorite_settle (fst (toggleFavorite_start st itemId)) Rejected) =
     favoritesInvalidated st \<and>
   alerts (toggleFavorite_settle (fst (toggleFavorite_start st itemId)) Rejected) =
     alerts st @ [ErrorData ''Failed to update favorites'' [''Please try again later.'']]"
  by (simp add: toggleFavorite_start_def toggleFavorite_settle_def isFavorite_def
        split: option.splits)

text \<open>Claim C1 as stated fails: toggling the catalog item \<open>f1\<close> sends a request, and while
  the request is in flight the displayed favorite state of \<open>f1\<close> is not flipped.\<close>

theorem toggle_no_flip_counterexample:
  "snd (toggleFavorite_start example_state ''f1'') \<noteq> None \<and>
   \<not> (isFavorite (fst (toggleFavorite_start example_state ''f1'')) ''f1'' \<noteq>
        isFavorite example_state ''f1'')"
  by (simp add: toggleFavorite_start_def isFavorite_def all_items_def example_state_def
        example_store_def example_item_def)

section \<open>Properties of grab\<close>

text \<open>
  Claim C9. Every payload that \<open>grabFlow\<close> sends has as its name the item's name followed by
  \<open>" (Grabbed)"\<close> and as its graph data the empty placeholder: no nodes, no edges, and a
  viewport of exactly the three members \<open>x = 0\<close>, \<open>y = 0\<close>, \<open>zoom = 1\<close>, whatever the item's
  stored graph is. A payload is sent for every item that is not already being grabbed.
\<close>

theorem grab_payload_is_placeholder:
  "(id_s item \<notin> grabbingItems st \<longrightarrow> snd (grabFlow_start st item) \<noteq> None) \<and>
   (\<forall>p. snd (grabFlow_start st item) = Some p \<longrightarrow>
      name p = name_s item @ '' (Grabbed)'' \<and>
      nodes (data p) = JArr [] \<and> edges (data p) = JArr [] \<and>
      get_prop (Some (viewport (data p))) ''x'' = Inr (Some (JNum 0)) \<and>
      get_prop (Some (viewport (data p))) ''y'' = Inr (Some (JNum 0)) \<and>
      get_prop (Some (viewport (data p))) ''zoom'' = Inr (Some (JNum 1)) \<and>
      length (case viewport (data p) of JObj kvs \<Rightarrow> kvs | _ \<Rightarrow> []) = 3)"
  by (auto simp add: grabFlow_start_def)

theorem grab_payload_is_placeholder_witness:
  "id_s (example_item ''f1'' ''Alpha'' FLOW 0) \<notin> grabbingItems example_state \<and>
   (\<exists>p. snd (grabFlow_start example_state (example_item ''f1'' ''Alpha'' FLOW 0)) = Some p \<and>
        name p = ''Alpha (Grabbed)'' \<and> nodes (data p) = JArr [] \<and> edges (data p) = JArr [])"
proof -
  let ?item = "example_item ''f1'' ''Alpha'' FLOW 0"
  have h: "id_s ?item \<notin> grabbingItems example_state"
    by (simp add: example_item_def example_state_def)
  note t = grab_payload_is_placeholder[of ?item example_state]
  from t h obtain p where p: "snd (grabFlow_start example_state ?item) = Some p" by auto
  with t have "name p = name_s ?item @ '' (Grabbed)''"
    "nodes (data p) = JArr []" "edges (data p) = JArr []" by blast+
  with p h show ?thesis by (simp add: example_item_def)
qed

section \<open>Properties of the preview\<close>

lemma get_prop_truthy: "truthy v \<Longrightarrow> \<exists>x. get_prop v k = Inr x"
  by (cases "(v, k)" rule: get_prop.cases) auto

text \<open>
  Claim C2, as the code has it. The preview is the placeholder graph when the fetch
  rejects, the body does not parse or is \<open>null\<close> (then with an error message), when the
  response is not ok, and when the payload's \<open>data\<close>, \<open>data.nodes\<close> or \<open>data.edges\<close> is
  missing or falsy. In every other case, also when \<open>nodes\<close> and \<open>edges\<close> are empty arrays,
  the payload's \<open>nodes\<close> and \<open>edges\<close> are used verbatim, with the payload's \<open>viewport\<close> when it
  is truthy and the default viewport otherwise.
\<close>

theorem preview_uses_placeholder_iff:
  "loadFlowData item FetchRejected = caught item \<and>
   loadFlowData item (Response True None) = caught item \<and>
   loadFlowData item (Response True (Some JNull)) = caught item \<and>
   loadFlowData item (Response False body) = use_placeholder item \<and>
   (get_prop (Some d) ''data'' = Inr dd \<and>
      (\<not> truthy dd \<or> (\<exists>ns. get_prop dd ''nodes'' = Inr ns \<and> \<not> truthy ns) \<or>
       (\<exists>es. get_prop dd ''edges'' = Inr es \<and> \<not> truthy es))
    \<longrightarrow> loadFlowData item (Response True (Some d)) = use_placeholder item) \<and>
   (get_prop (Some d) ''data'' = Inr dd \<and>
      get_prop dd ''nodes'' = Inr (Some ns) \<and> truthy (Some ns) \<and>
      get_prop dd ''edges'' = Inr (Some es) \<and> truthy (Some es) \<and>
      get_prop dd ''viewport'' = Inr vp
    \<longrightarrow> loadFlowData item (Response True (Some d)) =
          \<lparr>flowData = Some \<lparr>nodes = ns, edges = es, viewport = or_else vp default_viewport\<rparr>,
           loading = False, error_msg = None\<rparr>)"
proof (intro conjI impI)
  show "loadFlowData item FetchRejected = caught item" by (simp add: loadFlowData_def)
  show "loadFlowData item (Response True None) = caught item" by (simp add: loadFlowData_def)
  show "loadFlowData item (Response True (Some JNull)) = caught item"
    by (simp add: loadFlowData_def)
  show "loadFlowData item (Response False body) = use_placeholder item"
    by (simp add: loadFlowData_def)
next
  assume a: "get_prop (Some d) ''data'' = Inr dd \<and>
      (\<not> truthy dd \<or> (\<exists>ns. get_prop dd ''nodes'' = Inr ns \<and> \<not> truthy ns) \<or>
       (\<exists>es. get_prop dd ''edges'' = Inr es \<and> \<not> truthy es))"
  show "loadFlowData item (Response True (Some d)) = use_placeholder item"
  proof (cases "truthy dd")
    case False
    with a show ?thesis by (simp add: loadFlowData_def)
  next
    case True
    then obtain ns where ns: "get_prop dd ''nodes'' = Inr ns" using get_prop_truthy by blast
    from True obtain es where es: "get_prop dd ''edges'' = Inr es" using get_prop_truthy by blast
    from a True ns es have "\<not> truthy ns \<or> \<not> truthy es" by auto
    with a True ns es show ?thesis by (auto simp add: loadFlowData_def)
  qed
next
  assume a: "get_prop (Some d) ''data'' = Inr dd \<and>
      get_prop dd ''nodes'' = Inr (Some ns) \<and> truthy (Some ns) \<and>
      get_prop dd ''edges'' = Inr (Some es) \<and> truthy (Some es) \<and>
      get_prop dd ''viewport'' = Inr vp"
  have dd: "truthy dd"
  proof (rule ccontr)
    assume "\<not> truthy dd"
    then have "get_prop dd ''nodes'' = Inl TypeError \<or> get_prop dd ''nodes'' = Inr None"
      by (cases "(dd, ''nodes'')" rule: get_prop.cases) auto
    with a show False by simp
  qed
  show "loadFlowData item (Response True (Some d)) =
          \<lparr>flowData = Some \<lparr>nodes = ns, edges = es, viewport = or_else vp default_viewport\<rparr>,
           loading = False, error_msg = None\<rparr>"
    using a dd by (simp add: loadFlowData_def)
qed

theorem preview_uses_placeholder_iff_witness:
  "get_prop (Some small_graph_body) ''data'' =
     Inr (Some (JObj [(''nodes'', JArr [JObj [(''id'', JStr ''n1'')]]),
                      (''edges'', JArr [JObj [(''id'', JStr ''e1'')]])])) \<and>
   loadFlowData anonymous_item (Response True (Some small_graph_body)) =
     \<lparr>flowData = Some \<lparr>nodes = JArr [JObj [(''id'', JStr ''n1'')]],
                        edges = JArr [JObj [(''id'', JStr ''e1'')]],
                        viewport = default_viewport\<rparr>,
      loading = False, error_msg = None\<rparr> \<and>
   get_prop (Some (JObj [(''data'', JNum 0)])) ''data'' = Inr (Some (JNum 0)) \<and>
   \<not> truthy (Some (JNum 0)) \<and>
   loadFlowData anonymous_item (Response True (Some (JObj [(''data'', JNum 0)]))) =
     use_placeholder anonymous_item"
  using preview_uses_placeholder_iff
    [of anonymous_item None small_graph_body
        "Some (JObj [(''nodes'', JArr [JObj [(''id'', JStr ''n1'')]]),
                     (''edges'', JArr [JObj [(''id'', JStr ''e1'')]])])"
        "JArr [JObj [(''id'', JStr ''n1'')]]" "JArr [JObj [(''id'', JStr ''e1'')]]" None]
    preview_uses_placeholder_iff
    [of anonymous_item None "JObj [(''data'', JNum 0)]" "Some (JNum 0)" JNull JNull None]
  by (simp add: small_graph_body_def)

text \<open>Claim C2 as stated fails for a payload whose node and edge lists are both empty:
  it lacks non-empty lists, yet the preview of the component \<open>c1\<close> is the payload's empty
  graph and not the placeholder.\<close>

theorem preview_empty_lists_counterexample:
  "flowData (loadFlowData (example_item ''c1'' ''Gamma'' COMPONENT 1)
               (Response True (Some empty_graph_body)))
     \<noteq> Some (createPlaceholderFlow (example_item ''c1'' ''Gamma'' COMPONENT 1))"
  by (simp add: loadFlowData_def empty_graph_body_def createPlaceholderFlow_def example_item_def)

end
